theory Spec2Isabelle
  imports Main "HOL-Library.Sublist"
begin

section \<open>JavaScript values used by the firewall\<close>

text \<open>
  Amounts are \<open>bigint\<close> values and are modelled as \<open>int\<close>. Strings are \<open>string\<close>; the
  addresses, calldata and return data the firewall handles are hexadecimal text, so one
  \<open>char\<close> stands for one code unit. \<open>toLowerCase\<close> is the ASCII part of the JavaScript
  method: the letters A to Z are mapped to a to z and every other character is kept.
\<close>

definition lowerChar :: "char \<Rightarrow> char" where
  "lowerChar c =
     (let n = (of_char c :: nat)
      in if 65 \<le> n \<and> n \<le> 90 then char_of (n + 32) else c)"

definition toLowerCase :: "string \<Rightarrow> string" where
  "toLowerCase s = map lowerChar s"

definition slice :: "nat \<Rightarrow> nat \<Rightarrow> string \<Rightarrow> string" where
  \<comment> \<open>\<open>s.slice(a, b)\<close> for non-negative \<open>a\<close>, \<open>b\<close>: both ends are clamped to the length.\<close>
  "slice a b s = take (b - a) (drop a s)"

definition startsWith :: "string \<Rightarrow> string \<Rightarrow> bool" where
  "startsWith s p = prefix p s"

primrec includes_str :: "string \<Rightarrow> string \<Rightarrow> bool" where
  "includes_str [] p = (p = [])"
| "includes_str (c # cs) p = (prefix p (c # cs) \<or> includes_str cs p)"

definition truthyStr :: "string option \<Rightarrow> bool" where
  \<comment> \<open>An optional string in a condition: \<open>undefined\<close> and the empty string are falsy.\<close>
  "truthyStr x = (case x of None \<Rightarrow> False | Some s \<Rightarrow> s \<noteq> [])"

definition truthyInt :: "int option \<Rightarrow> bool" where
  \<comment> \<open>An optional bigint in a condition: \<open>undefined\<close> and \<open>0n\<close> are falsy.\<close>
  "truthyInt x = (case x of None \<Rightarrow> False | Some n \<Rightarrow> n \<noteq> 0)"

section \<open>Spending limits (limits.ts)\<close>

record SpendingLimitConfig =
  maxDailySpend :: int
  maxPerTxSpend :: int

record SpendingCheckResult =
  sc_allowed :: bool
  sc_reason :: "string option"
  currentDailySpend :: int
  sc_remainingDaily :: int

record SpendingLimits =
  dailySpend :: int
  lastResetDate :: string
  maxDaily :: int
  maxPerTx :: int

record LimitsStatus =
  st_dailySpend :: int
  st_dailyLimit :: int
  st_perTxLimit :: int

text \<open>
  \<open>getTodayDate()\<close> reads the wall clock; every operation of the model takes the date
  string read at that moment as its argument \<open>today\<close>. \<open>formatWei\<close> goes through a
  double-precision number (\<open>Number(formatEther(wei))\<close>, \<open>toFixed(4)\<close>), so the rendering
  of an amount is an argument \<open>formatWei\<close> of the operations that build a message.
\<close>

definition new_SpendingLimits :: "string \<Rightarrow> SpendingLimitConfig \<Rightarrow> SpendingLimits" where
  "new_SpendingLimits today config =
     \<lparr>dailySpend = 0, lastResetDate = today,
      maxDaily = maxDailySpend config, maxPerTx = maxPerTxSpend config\<rparr>"

definition maybeResetDaily :: "string \<Rightarrow> SpendingLimits \<Rightarrow> SpendingLimits" where
  "maybeResetDaily today s =
     (if today \<noteq> lastResetDate s then s\<lparr>dailySpend := 0, lastResetDate := today\<rparr> else s)"

definition perTxReason :: "(int \<Rightarrow> string) \<Rightarrow> int \<Rightarrow> int \<Rightarrow> string" where
  "perTxReason formatWei amountWei cap =
     ''Transaction amount '' @ formatWei amountWei @ '' exceeds per-tx limit of '' @ formatWei cap"

definition dailyReason :: "(int \<Rightarrow> string) \<Rightarrow> int \<Rightarrow> int \<Rightarrow> int \<Rightarrow> string" where
  "dailyReason formatWei spent amountWei cap =
     ''Transaction would exceed daily limit. Current: '' @ formatWei spent @ '', Tx: ''
       @ formatWei amountWei @ '', Limit: '' @ formatWei cap"

definition limits_check ::
  "(int \<Rightarrow> string) \<Rightarrow> string \<Rightarrow> int \<Rightarrow> SpendingLimits \<Rightarrow> SpendingCheckResult \<times> SpendingLimits" where
  "limits_check formatWei today amountWei s0 =
     (let s = maybeResetDaily today s0 in
      if amountWei > maxPerTx s then
        (\<lparr>sc_allowed = False,
          sc_reason = Some (perTxReason formatWei amountWei (maxPerTx s)),
          currentDailySpend = dailySpend s,
          sc_remainingDaily = (if maxDaily s > dailySpend s then maxDaily s - dailySpend s else 0)\<rparr>, s)
      else
        let projectedDaily = dailySpend s + amountWei in
        if projectedDaily > maxDaily s then
          (\<lparr>sc_allowed = False,
            sc_reason = Some (dailyReason formatWei (dailySpend s) amountWei (maxDaily s)),
            currentDailySpend = dailySpend s,
            sc_remainingDaily = (if maxDaily s > dailySpend s then maxDaily s - dailySpend s else 0)\<rparr>, s)
        else
          (\<lparr>sc_allowed = True,
            sc_reason = None,
            currentDailySpend = dailySpend s,
            sc_remainingDaily = maxDaily s - projectedDaily\<rparr>, s))"

definition recordSpend :: "string \<Rightarrow> int \<Rightarrow> SpendingLimits \<Rightarrow> SpendingLimits" where
  "recordSpend today amountWei s0 =
     (let s = maybeResetDaily today s0 in s\<lparr>dailySpend := dailySpend s + amountWei\<rparr>)"

definition resetDailySpend :: "string \<Rightarrow> SpendingLimits \<Rightarrow> SpendingLimits" where
  "resetDailySpend today s = s\<lparr>dailySpend := 0, lastResetDate := today\<rparr>"

definition limits_getStatus :: "string \<Rightarrow> SpendingLimits \<Rightarrow> LimitsStatus \<times> SpendingLimits" where
  "limits_getStatus today s0 =
     (let s = maybeResetDaily today s0 in
      (\<lparr>st_dailySpend = dailySpend s, st_dailyLimit = maxDaily s, st_perTxLimit = maxPerTx s\<rparr>, s))"

section \<open>Contract allowlist (allowlist.ts)\<close>

definition KNOWN_MALICIOUS_CONTRACTS :: "string list" where
  "KNOWN_MALICIOUS_CONTRACTS = [''0x0000000000000000000000000000000000000000'']"

definition SAFE_SYSTEM_CONTRACTS :: "string list" where
  "SAFE_SYSTEM_CONTRACTS =
     [''0x4200000000000000000000000000000000000006'',
      ''0x833589fCD6eDb6E08f4c7C32D4f71b54bdA02913'',
      ''0xd9aAEc86B65D86f6A7B5B1b0c42FFA531710b6CA'',
      ''0x50c5725949A6F0c72E6C4a641F24049A917DB0Cb'',
      ''0x2Ae3F1Ec7F1F5012CFEab0185bfc7aa3cf0DEc22'',
      ''0x940181a94A35A4569E4529A3CDfB74e38FD98631'']"

datatype ContractStatus = Allowed | Blocked | NotInAllowlist | SystemSafe

record ContractCheckResult =
  cc_allowed :: bool
  cc_reason :: "string option"
  contractAddress :: string
  status :: ContractStatus

record AllowlistConfig =
  allowedContracts :: "string list option"
  blockedContracts :: "string list option"
  allowSystemContracts :: "bool option"

record ContractAllowlist =
  allowlist :: "string set option"
  blocklist :: "string set"
  systemContracts :: "string set"
  honorSystemContracts :: bool

datatype ListMode = AllowlistMode | BlocklistOnly

record AllowlistStatus =
  mode :: ListMode
  allowlistSize :: "nat option"
  blocklistSize :: nat

definition new_ContractAllowlist :: "AllowlistConfig \<Rightarrow> ContractAllowlist" where
  \<comment> \<open>An array, also an empty one, is truthy: \<open>allowedContracts = Some []\<close> is allowlist mode.\<close>
  "new_ContractAllowlist config =
     \<lparr>allowlist = (case allowedContracts config of
                      Some xs \<Rightarrow> Some (set (map toLowerCase xs))
                    | None \<Rightarrow> None),
      blocklist = set (map toLowerCase
                    (KNOWN_MALICIOUS_CONTRACTS @
                     (case blockedContracts config of Some xs \<Rightarrow> xs | None \<Rightarrow> []))),
      systemContracts = set (map toLowerCase SAFE_SYSTEM_CONTRACTS),
      honorSystemContracts = (case allowSystemContracts config of Some b \<Rightarrow> b | None \<Rightarrow> True)\<rparr>"

definition allowlist_check :: "ContractAllowlist \<Rightarrow> string \<Rightarrow> ContractCheckResult" where
  "allowlist_check al addr =
     (let addrLower = toLowerCase addr in
      if addrLower \<in> blocklist al then
        \<lparr>cc_allowed = False,
         cc_reason = Some (''Contract '' @ addr @ '' is blocked (malicious or user-blocked)''),
         contractAddress = addr, status = Blocked\<rparr>
      else if honorSystemContracts al \<and> addrLower \<in> systemContracts al then
        \<lparr>cc_allowed = True, cc_reason = None, contractAddress = addr, status = SystemSafe\<rparr>
      else
        (case allowlist al of
           Some allowSet \<Rightarrow>
             if addrLower \<in> allowSet then
               \<lparr>cc_allowed = True, cc_reason = None, contractAddress = addr, status = Allowed\<rparr>
             else
               \<lparr>cc_allowed = False,
                cc_reason = Some (''Contract '' @ addr @ '' is not in allowlist''),
                contractAddress = addr, status = NotInAllowlist\<rparr>
         | None \<Rightarrow>
             \<lparr>cc_allowed = True, cc_reason = None, contractAddress = addr, status = Allowed\<rparr>))"

definition checkAll :: "ContractAllowlist \<Rightarrow> string list \<Rightarrow> ContractCheckResult list" where
  "checkAll al addrs = map (allowlist_check al) addrs"

definition addToBlocklist :: "string \<Rightarrow> ContractAllowlist \<Rightarrow> ContractAllowlist" where
  "addToBlocklist addr al = al\<lparr>blocklist := insert (toLowerCase addr) (blocklist al)\<rparr>"

definition addToAllowlist :: "string \<Rightarrow> ContractAllowlist \<Rightarrow> bool \<times> ContractAllowlist" where
  "addToAllowlist addr al =
     (case allowlist al of
        None \<Rightarrow> (False, al)
      | Some allowSet \<Rightarrow> (True, al\<lparr>allowlist := Some (insert (toLowerCase addr) allowSet)\<rparr>))"

definition allowlist_getStatus :: "ContractAllowlist \<Rightarrow> AllowlistStatus" where
  "allowlist_getStatus al =
     \<lparr>mode = (case allowlist al of Some _ \<Rightarrow> AllowlistMode | None \<Rightarrow> BlocklistOnly),
      allowlistSize = (case allowlist al of Some allowSet \<Rightarrow> Some (card allowSet) | None \<Rightarrow> None),
      blocklistSize = card (blocklist al)\<rparr>"

section \<open>Transaction simulator (simulator.ts)\<close>

record TransactionRequest =
  tx_to :: "string option"
  tx_data :: "string option"
  tx_value :: "int option"
  tx_gas :: "int option"
  tx_from :: "string option"

text \<open>
  A thrown value is an \<open>Error\<close> with its message, or anything else (\<open>throw null\<close>
  included). The chain client is outside the program: what the program does to it is
  recorded as a trace of events, and the client answers each request as a function of the
  whole trace up to and including that request, so that it may fail once and succeed on
  the retry.
\<close>

datatype thrown = JsError string | JsOther

datatype rpc_event =
    Call "string option" "string option" "int option" "int option" "string option"
  | EstimateGas "string option" "string option" "int option" "string option"
  | GetGasPrice
  | Sleep int

record PublicClient =
  call_response :: "rpc_event list \<Rightarrow> thrown + string option"
  estimateGas_response :: "rpc_event list \<Rightarrow> thrown + int"
  getGasPrice_response :: "rpc_event list \<Rightarrow> thrown + int"

datatype chain_name = base | mainnet

record SimulatorConfig =
  rpcUrl :: "string option"
  chain :: "chain_name option"
  cfg_maxRetries :: "int option"

record TransactionSimulator =
  client :: PublicClient
  sim_chain :: chain_name
  maxRetries :: int  \<comment> \<open>a whole number of attempts; it may be zero or negative\<close>

record SimulationResult =
  success :: bool
  error :: "string option"
  gasUsed :: "int option"
  returnData :: "string option"
  sr_warnings :: "string list"

record SpendEstimate =
  se_estimatedSpend :: int
  se_gasPrice :: int
  se_warnings :: "string list"

definition new_TransactionSimulator :: "PublicClient \<Rightarrow> SimulatorConfig \<Rightarrow> TransactionSimulator" where
  \<comment> \<open>\<open>createPublicClient\<close> is the library's; the client it yields is the argument \<open>c\<close>.\<close>
  "new_TransactionSimulator c config =
     \<lparr>client = c,
      sim_chain = (case chain config of Some ch \<Rightarrow> ch | None \<Rightarrow> base),
      maxRetries = (case cfg_maxRetries config of Some n \<Rightarrow> if n \<noteq> 0 then n else 2
                    | None \<Rightarrow> 2)\<rparr>"

definition rpc_call ::
  "PublicClient \<Rightarrow> TransactionRequest \<Rightarrow> rpc_event list \<Rightarrow> (thrown + string option) \<times> rpc_event list" where
  "rpc_call c tx tr =
     (let tr' = tr @ [Call (tx_to tx) (tx_data tx) (tx_value tx) (tx_gas tx) (tx_from tx)]
      in (call_response c tr', tr'))"

definition rpc_estimateGas ::
  "PublicClient \<Rightarrow> TransactionRequest \<Rightarrow> rpc_event list \<Rightarrow> (thrown + int) \<times> rpc_event list" where
  "rpc_estimateGas c tx tr =
     (let tr' = tr @ [EstimateGas (tx_to tx) (tx_data tx) (tx_value tx) (tx_from tx)]
      in (estimateGas_response c tr', tr'))"

definition rpc_getGasPrice ::
  "PublicClient \<Rightarrow> rpc_event list \<Rightarrow> (thrown + int) \<times> rpc_event list" where
  "rpc_getGasPrice c tr = (let tr' = tr @ [GetGasPrice] in (getGasPrice_response c tr', tr'))"

function retryLoop ::
  "int \<Rightarrow> (rpc_event list \<Rightarrow> (thrown + 'a) \<times> rpc_event list) \<Rightarrow> int \<Rightarrow> thrown option
     \<Rightarrow> rpc_event list \<Rightarrow> (thrown + 'a) \<times> rpc_event list" where
  "retryLoop n fn i lastError tr =
     (if i < n then
        (case fn tr of
           (Inr v, tr1) \<Rightarrow> (Inr v, tr1)
         | (Inl e, tr1) \<Rightarrow>
             retryLoop n fn (i + 1)
               (Some (case e of JsError m \<Rightarrow> JsError m | JsOther \<Rightarrow> JsError ''Unknown error''))
               (if i < n - 1 then tr1 @ [Sleep (100 * (i + 1))] else tr1))
      else
        (Inl (case lastError of Some e \<Rightarrow> e | None \<Rightarrow> JsOther), tr))"
  by pat_completeness auto
termination
  by (relation "measure (\<lambda>(n, fn, i, lastError, tr). nat (n - i))") auto

definition simulateWithRetry ::
  "TransactionSimulator \<Rightarrow> (rpc_event list \<Rightarrow> (thrown + 'a) \<times> rpc_event list)
     \<Rightarrow> rpc_event list \<Rightarrow> (thrown + 'a) \<times> rpc_event list" where
  "simulateWithRetry sim fn tr = retryLoop (maxRetries sim) fn 0 None tr"

definition analyzeReturnDataForWarnings :: "string \<Rightarrow> string list" where
  "analyzeReturnDataForWarnings rd =
     (if length rd > 2 then
        (if startsWith rd ''0x08c379a0''
         then [''Transaction includes revert reason - check contract state''] else [])
        @ (if startsWith rd ''0x4e487b71''
           then [''Transaction would trigger panic (overflow, div by zero, etc.)''] else [])
      else [])"

definition simulate ::
  "(int \<Rightarrow> string) \<Rightarrow> TransactionSimulator \<Rightarrow> TransactionRequest \<Rightarrow> rpc_event list
     \<Rightarrow> SimulationResult \<times> rpc_event list" where
  \<comment> \<open>\<open>toLocaleString\<close> renders a gas amount in the host's locale.\<close>
  "simulate toLocaleString sim tx tr =
     (case simulateWithRetry sim (rpc_call (client sim) tx) tr of
        (Inr rd, tr1) \<Rightarrow>
          (let warnings = (case rd of
                             Some d \<Rightarrow> if d \<noteq> [] then analyzeReturnDataForWarnings d else []
                           | None \<Rightarrow> [])
           in if \<not> truthyInt (tx_gas tx) \<and> truthyStr (tx_to tx) \<and> truthyStr (tx_from tx) then
                (case rpc_estimateGas (client sim) tx tr1 of
                   (Inr gasEstimate, tr2) \<Rightarrow>
                     (\<lparr>success = True, error = None, gasUsed = Some gasEstimate, returnData = rd,
                       sr_warnings = warnings @
                         (if gasEstimate > 500000
                          then [''High gas usage estimated: '' @ toLocaleString gasEstimate @ '' gas'']
                          else [])\<rparr>, tr2)
                 | (Inl _, tr2) \<Rightarrow>
                     (\<lparr>success = True, error = None, gasUsed = None, returnData = rd,
                       sr_warnings = warnings @ [''Could not estimate gas usage'']\<rparr>, tr2))
              else
                (\<lparr>success = True, error = None, gasUsed = None, returnData = rd,
                  sr_warnings = warnings\<rparr>, tr1))
      | (Inl e, tr1) \<Rightarrow>
          (let errorMessage = (case e of JsError m \<Rightarrow> m | JsOther \<Rightarrow> ''Unknown simulation error'')
           in if includes_str (toLowerCase errorMessage) ''insufficient funds'' then
                (\<lparr>success = False, error = Some ''Transaction would fail: insufficient funds'',
                  gasUsed = None, returnData = None,
                  sr_warnings = [''Check ETH balance and gas requirements'']\<rparr>, tr1)
              else if includes_str (toLowerCase errorMessage) ''revert'' then
                (\<lparr>success = False, error = Some ''Transaction would revert'',
                  gasUsed = None, returnData = None,
                  sr_warnings = [''Contract execution would fail'']\<rparr>, tr1)
              else
                (\<lparr>success = False, error = Some (''Simulation failed: '' @ errorMessage),
                  gasUsed = None, returnData = None, sr_warnings = []\<rparr>, tr1)))"

definition HIGH_RISK_SELECTORS :: "string list" where
  "HIGH_RISK_SELECTORS = [''0x095ea7b3'', ''0xa22cb465'', ''0x2e1a7d4d'', ''0x3ccfd60b'']"

definition isHighRiskTransaction :: "string \<Rightarrow> bool" where
  "isHighRiskTransaction d = (toLowerCase (slice 0 10 d) \<in> set HIGH_RISK_SELECTORS)"

definition estimateSpend ::
  "(int \<Rightarrow> string) \<Rightarrow> TransactionSimulator \<Rightarrow> TransactionRequest \<Rightarrow> rpc_event list
     \<Rightarrow> SpendEstimate \<times> rpc_event list" where
  \<comment> \<open>Both client requests sit in their own \<open>try\<close>; nothing else in the body throws on
      values of these types, so the outer \<open>catch\<close> (the 0.1 ETH fallback) has no branch.\<close>
  "estimateSpend toLocaleString sim tx tr =
     (case rpc_getGasPrice (client sim) tr of (gp, tr1) \<Rightarrow>
      let gasPrice = (case gp of Inr p \<Rightarrow> p | Inl _ \<Rightarrow> 1000000000);
          w1 = (case gp of Inr _ \<Rightarrow> []
                | Inl _ \<Rightarrow> [''Could not fetch gas price, using default 1 gwei'']);
          gas0 = (case tx_gas tx of Some g \<Rightarrow> if g \<noteq> 0 then g else 21000 | None \<Rightarrow> 21000);
          hasData = (case tx_data tx of Some d \<Rightarrow> d \<noteq> [] \<and> d \<noteq> ''0x'' | None \<Rightarrow> False)
      in case (if \<not> truthyInt (tx_gas tx) \<and> truthyStr (tx_to tx) \<and> truthyStr (tx_from tx) then
                 (case rpc_estimateGas (client sim) tx tr1 of
                    (Inr g, tr2) \<Rightarrow> (g, [], tr2)
                  | (Inl _, tr2) \<Rightarrow>
                      (if hasData then 100000 else 21000,
                       [''Could not estimate gas, using default''], tr2))
               else (gas0, [], tr1)) of
           (gasEstimate, w2, tr2) \<Rightarrow>
      let gasCost = gasPrice * gasEstimate;
          v = (case tx_value tx of Some x \<Rightarrow> x | None \<Rightarrow> 0);
          w3 = (case tx_data tx of
                  Some d \<Rightarrow> if d \<noteq> [] \<and> isHighRiskTransaction d
                            then [''Transaction contains high-risk function calls''] else []
                | None \<Rightarrow> []);
          w4 = (if gasEstimate > 500000
                then [''High gas estimate: '' @ toLocaleString gasEstimate @ '' gas''] else []);
          w5 = (if v = 0 \<and> hasData
                then [''Contract interaction with no ETH value - check token approvals''] else [])
      in (\<lparr>se_estimatedSpend = v + gasCost, se_gasPrice = gasPrice,
           se_warnings = w1 @ w2 @ w3 @ w4 @ w5\<rparr>, tr2))"

definition extractContractAddresses :: "TransactionRequest \<Rightarrow> string list" where
  "extractContractAddresses tx =
     (case tx_to tx of Some a \<Rightarrow> if a \<noteq> [] then [a] else [] | None \<Rightarrow> [])"

section \<open>Transaction firewall (firewall/index.ts)\<close>

record FirewallConfig =
  fc_maxDailySpend :: int
  fc_maxPerTxSpend :: int
  fc_allowedContracts :: "string list option"
  fc_blockedContracts :: "string list option"
  fc_requireSimulation :: "bool option"
  fc_rpcUrl :: "string option"
  fc_chain :: "chain_name option"
  fc_payerAddress :: "string option"

record FirewallResult =
  allowed :: bool
  reason :: "string option"
  warnings :: "string list option"
  simulationResult :: "SimulationResult option"
  contractsChecked :: "ContractCheckResult list option"
  estimatedSpend :: "int option"

record SpendingStatus =
  fs_dailySpend :: int
  fs_dailyLimit :: int
  fs_perTxLimit :: int
  remainingDaily :: int

record FirewallStatus =
  spending :: SpendingStatus
  contracts :: AllowlistStatus
  fs_requireSimulation :: bool

record TransactionFirewall =
  limits :: SpendingLimits
  fw_allowlist :: ContractAllowlist
  simulator :: TransactionSimulator
  requireSimulation :: bool
  payerAddress :: "string option"

definition new_TransactionFirewall ::
  "string \<Rightarrow> PublicClient \<Rightarrow> FirewallConfig \<Rightarrow> TransactionFirewall" where
  "new_TransactionFirewall today c config =
     \<lparr>limits = new_SpendingLimits today
                 \<lparr>maxDailySpend = fc_maxDailySpend config, maxPerTxSpend = fc_maxPerTxSpend config\<rparr>,
      fw_allowlist = new_ContractAllowlist
                 \<lparr>allowedContracts = fc_allowedContracts config,
                  blockedContracts = fc_blockedContracts config,
                  allowSystemContracts = None\<rparr>,
      simulator = new_TransactionSimulator c
                 \<lparr>rpcUrl = fc_rpcUrl config, chain = fc_chain config, cfg_maxRetries = None\<rparr>,
      requireSimulation = (case fc_requireSimulation config of Some b \<Rightarrow> b | None \<Rightarrow> True),
      payerAddress = fc_payerAddress config\<rparr>"

text \<open>
  The two pictographs that open the calldata warnings, as the bytes of the source file.
\<close>

definition warnSign :: string where
  "warnSign = [CHR 0xC3, CHR 0xA2, CHR 0xC5, CHR 0xA1, CHR 0xC2, CHR 0xA0,
               CHR 0xC3, CHR 0xAF, CHR 0xC2, CHR 0xB8]"

definition alarmSign :: string where
  "alarmSign = [CHR 0xC3, CHR 0xB0, CHR 0xC5, CHR 0xB8, CHR 0xC5, CHR 0xA1, CHR 0xC2, CHR 0xA8]"

definition unlimitedApprovalWarning :: string where
  "unlimitedApprovalWarning =
     alarmSign @ '' UNLIMITED APPROVAL detected - consider using exact amount''"

definition SUSPICIOUS_SELECTORS :: "(string \<times> string) list" where
  "SUSPICIOUS_SELECTORS =
     [(''0x095ea7b3'', ''approve - check spender address carefully''),
      (''0xa22cb465'', ''setApprovalForAll - grants full NFT access''),
      (''0x42842e0e'', ''safeTransferFrom (NFT)''),
      (''0x23b872dd'', ''transferFrom - ensure authorized'')]"

definition checkCalldata :: "string \<Rightarrow> string list" where
  "checkCalldata d =
     (let selector = toLowerCase (slice 0 10 d) in
      (case map_of SUSPICIOUS_SELECTORS selector of
         Some descr \<Rightarrow> [warnSign @ '' '' @ descr]
       | None \<Rightarrow> [])
      @ (if selector = ''0x095ea7b3'' \<and> length d \<ge> 138 then
           (if slice 74 138 d = replicate 64 (CHR ''f'') then [unlimitedApprovalWarning] else [])
         else []))"

definition firewall_simulate ::
  "(int \<Rightarrow> string) \<Rightarrow> TransactionFirewall \<Rightarrow> TransactionRequest \<Rightarrow> rpc_event list
     \<Rightarrow> SimulationResult \<times> rpc_event list" where
  "firewall_simulate toLocaleString fw tx tr = simulate toLocaleString (simulator fw) tx tr"

definition simulateAndScan ::
  "(int \<Rightarrow> string) \<Rightarrow> TransactionFirewall \<Rightarrow> TransactionRequest \<Rightarrow> ContractCheckResult list
     \<Rightarrow> int option \<Rightarrow> string list \<Rightarrow> rpc_event list \<Rightarrow> FirewallResult \<times> rpc_event list" where
  \<comment> \<open>Steps 3 and 4 of \<open>check\<close> and its final return.\<close>
  "simulateAndScan toLocaleString fw tx contractChecks estimated warnings0 tr =
     (case (if requireSimulation fw
            then (case firewall_simulate toLocaleString fw tx tr of (r, tr1) \<Rightarrow> (Some r, tr1))
            else (None, tr)) of
        (sim, tr1) \<Rightarrow>
          if (case sim of Some r \<Rightarrow> \<not> success r | None \<Rightarrow> False) then
            (\<lparr>allowed = False,
              reason = (case sim of
                          Some r \<Rightarrow> Some (''Simulation failed: '' @
                                     (case error r of Some e \<Rightarrow> e | None \<Rightarrow> ''undefined''))
                        | None \<Rightarrow> None),
              warnings = Some (warnings0 @ (case sim of Some r \<Rightarrow> sr_warnings r | None \<Rightarrow> [])),
              simulationResult = sim,
              contractsChecked = Some contractChecks,
              estimatedSpend = estimated\<rparr>, tr1)
          else
            (let warnings1 = warnings0 @ (case sim of Some r \<Rightarrow> sr_warnings r | None \<Rightarrow> []);
                 warnings2 = warnings1 @
                   (case tx_data tx of
                      Some d \<Rightarrow> if d \<noteq> [] then checkCalldata d else []
                    | None \<Rightarrow> [])
             in (\<lparr>allowed = True,
                  reason = None,
                  warnings = (if length warnings2 > 0 then Some warnings2 else None),
                  simulationResult = sim,
                  contractsChecked = Some contractChecks,
                  estimatedSpend = estimated\<rparr>, tr1)))"

definition firewall_check ::
  "(int \<Rightarrow> string) \<Rightarrow> (int \<Rightarrow> string) \<Rightarrow> string \<Rightarrow> TransactionFirewall \<Rightarrow> TransactionRequest
     \<Rightarrow> rpc_event list \<Rightarrow> FirewallResult \<times> TransactionFirewall \<times> rpc_event list" where
  "firewall_check formatWei toLocaleString today fw tx tr =
     (let contractAddresses = extractContractAddresses tx;
          contractChecks = checkAll (fw_allowlist fw) contractAddresses
      in case find (\<lambda>c. \<not> cc_allowed c) contractChecks of
           Some blockedContract \<Rightarrow>
             (\<lparr>allowed = False, reason = cc_reason blockedContract, warnings = Some [],
               simulationResult = None, contractsChecked = Some contractChecks,
               estimatedSpend = None\<rparr>, fw, tr)
         | None \<Rightarrow>
             if truthyStr (payerAddress fw) then
               (case estimateSpend toLocaleString (simulator fw) tx tr of
                  (spendEstimate, tr1) \<Rightarrow>
                    (case limits_check formatWei today (se_estimatedSpend spendEstimate) (limits fw) of
                       (limitCheck, limits1) \<Rightarrow>
                         if \<not> sc_allowed limitCheck then
                           (\<lparr>allowed = False, reason = sc_reason limitCheck,
                             warnings = Some (se_warnings spendEstimate),
                             simulationResult = None, contractsChecked = Some contractChecks,
                             estimatedSpend = Some (se_estimatedSpend spendEstimate)\<rparr>,
                            fw\<lparr>limits := limits1\<rparr>, tr1)
                         else
                           (case simulateAndScan toLocaleString fw tx contractChecks
                                   (Some (se_estimatedSpend spendEstimate))
                                   (se_warnings spendEstimate) tr1 of
                              (r, tr2) \<Rightarrow> (r, fw\<lparr>limits := limits1\<rparr>, tr2))))
             else
               (case simulateAndScan toLocaleString fw tx contractChecks None
                       [''No payer address provided - spending limits not enforced''] tr of
                  (r, tr2) \<Rightarrow> (r, fw, tr2)))"

definition firewall_recordSpend :: "string \<Rightarrow> int \<Rightarrow> TransactionFirewall \<Rightarrow> TransactionFirewall" where
  "firewall_recordSpend today amountWei fw = fw\<lparr>limits := recordSpend today amountWei (limits fw)\<rparr>"

definition firewall_resetDailySpend :: "string \<Rightarrow> TransactionFirewall \<Rightarrow> TransactionFirewall" where
  "firewall_resetDailySpend today fw = fw\<lparr>limits := resetDailySpend today (limits fw)\<rparr>"

definition firewall_getStatus :: "string \<Rightarrow> TransactionFirewall \<Rightarrow> FirewallStatus \<times> TransactionFirewall" where
  "firewall_getStatus today fw =
     (case limits_getStatus today (limits fw) of
        (spendStatus, limits1) \<Rightarrow>
          (\<lparr>spending =
               \<lparr>fs_dailySpend = st_dailySpend spendStatus,
                fs_dailyLimit = st_dailyLimit spendStatus,
                fs_perTxLimit = st_perTxLimit spendStatus,
                remainingDaily = st_dailyLimit spendStatus - st_dailySpend spendStatus\<rparr>,
             contracts = allowlist_getStatus (fw_allowlist fw),
             fs_requireSimulation = requireSimulation fw\<rparr>,
           fw\<lparr>limits := limits1\<rparr>))"

definition getRemainingDaily :: "string \<Rightarrow> TransactionFirewall \<Rightarrow> int \<times> TransactionFirewall" where
  "getRemainingDaily today fw =
     (case limits_getStatus today (limits fw) of
        (st, limits1) \<Rightarrow> (st_dailyLimit st - st_dailySpend st, fw\<lparr>limits := limits1\<rparr>))"

definition blockContract :: "string \<Rightarrow> TransactionFirewall \<Rightarrow> TransactionFirewall" where
  "blockContract addr fw = fw\<lparr>fw_allowlist := addToBlocklist addr (fw_allowlist fw)\<rparr>"

definition allowContract :: "string \<Rightarrow> TransactionFirewall \<Rightarrow> bool \<times> TransactionFirewall" where
  "allowContract addr fw =
     (case addToAllowlist addr (fw_allowlist fw) of
        (ok, al) \<Rightarrow> (ok, fw\<lparr>fw_allowlist := al\<rparr>))"

section \<open>Observations on traces and calldata\<close>

text \<open>
  The number of read-only execution calls (\<open>client.call\<close>) a trace records.
\<close>

primrec isCall :: "rpc_event \<Rightarrow> bool" where
  "isCall (Call t d v g f) = True"
| "isCall (EstimateGas t d v f) = False"
| "isCall GetGasPrice = False"
| "isCall (Sleep ms) = False"

definition callAttempts :: "rpc_event list \<Rightarrow> nat" where
  "callAttempts tr = length (filter isCall tr)"

text \<open>
  The bytes that a \<open>0x\<close>-prefixed hexadecimal string denotes; the digits a to f may be
  written in either case.
\<close>

definition hexVal :: "char \<Rightarrow> nat option" where
  "hexVal c =
     (let n = (of_char c :: nat)
      in if 48 \<le> n \<and> n \<le> 57 then Some (n - 48)
         else if 97 \<le> n \<and> n \<le> 102 then Some (n - 87)
         else if 65 \<le> n \<and> n \<le> 70 then Some (n - 55)
         else None)"

fun hexPairs :: "string \<Rightarrow> nat list option" where
  "hexPairs [] = Some []"
| "hexPairs [c] = None"
| "hexPairs (h # l # rest) =
     (case hexVal h of
        None \<Rightarrow> None
      | Some a \<Rightarrow>
          (case hexVal l of
             None \<Rightarrow> None
           | Some b \<Rightarrow>
               (case hexPairs rest of
                  None \<Rightarrow> None
                | Some bs \<Rightarrow> Some ((16 * a + b) # bs))))"

definition calldataBytes :: "string \<Rightarrow> nat list option" where
  "calldataBytes d = (if take 2 d = ''0x'' then hexPairs (drop 2 d) else None)"

section \<open>The fixtures of the test suite (tests/firewall.test.ts)\<close>

definition mockClient :: PublicClient where
  "mockClient =
     \<lparr>call_response =
        (\<lambda>tr. Inr (Some ''0x0000000000000000000000000000000000000000000000000000000000000001'')),
      estimateGas_response = (\<lambda>tr. Inr 21000),
      getGasPrice_response = (\<lambda>tr. Inr 1000000000)\<rparr>"

definition mockAddress :: string where
  "mockAddress = ''0x742d35Cc6634C0532925a3b8D23C5d3ce87CDD4b''"

definition mockContract :: string where
  "mockContract = ''0x1234567890123456789012345678901234567890''"

definition maliciousContract :: string where
  "maliciousContract = ''0x0000000000000000000000000000000000000000''"

definition ether :: int where
  "ether = 1000000000000000000"

definition testConfig :: FirewallConfig where
  "testConfig =
     \<lparr>fc_maxDailySpend = 10 * ether, fc_maxPerTxSpend = 1 * ether,
      fc_allowedContracts = None, fc_blockedContracts = None,
      fc_requireSimulation = Some False, fc_rpcUrl = None, fc_chain = Some base,
      fc_payerAddress = Some mockAddress\<rparr>"

definition testDate :: string where
  "testDate = ''2026-11-01''"

definition plainFormat :: "int \<Rightarrow> string" where
  \<comment> \<open>A stand-in rendering of amounts for the examples.\<close>
  "plainFormat n = (if n < 0 then ''-'' else ''+'')"


definition revertDataClient :: PublicClient where
  \<comment> \<open>\<open>mockClient.call.mockResolvedValue({data: '0x08c379a0' + '0'.repeat(56)})\<close>\<close>
  "revertDataClient =
     mockClient\<lparr>call_response :=
       (\<lambda>tr. Inr (Some (''0x08c379a0'' @ replicate 56 (CHR ''0''))))\<rparr>"

definition panicDataClient :: PublicClient where
  \<comment> \<open>\<open>mockClient.call.mockResolvedValue({data: '0x4e487b71' + '0'.repeat(56)})\<close>\<close>
  "panicDataClient =
     mockClient\<lparr>call_response :=
       (\<lambda>tr. Inr (Some (''0x4e487b71'' @ replicate 56 (CHR ''0''))))\<rparr>"


definition revertDataSimulator :: TransactionSimulator where
  "revertDataSimulator =
     new_TransactionSimulator revertDataClient
       \<lparr>rpcUrl = None, chain = None, cfg_maxRetries = None\<rparr>"

definition approveTx :: TransactionRequest where
  "approveTx =
     \<lparr>tx_to = Some mockContract, tx_data = Some ''0x095ea7b3'', tx_value = None,
      tx_gas = None, tx_from = Some mockAddress\<rparr>"

definition transfer2Eth :: TransactionRequest where
  "transfer2Eth =
     \<lparr>tx_to = Some mockAddress, tx_data = None, tx_value = Some (2 * ether),
      tx_gas = None, tx_from = Some mockAddress\<rparr>"

definition wethOnBase :: string where
  "wethOnBase = ''0x4200000000000000000000000000000000000006''"

definition emptyAllowlistConfig :: FirewallConfig where
  \<comment> \<open>The configuration of the test \<open>allows system contracts by default\<close>.\<close>
  "emptyAllowlistConfig = testConfig\<lparr>fc_allowedContracts := Some []\<rparr>"

definition transferToWeth :: TransactionRequest where
  "transferToWeth =
     \<lparr>tx_to = Some wethOnBase, tx_data = None, tx_value = Some (ether div 10),
      tx_gas = None, tx_from = Some mockAddress\<rparr>"

definition negativeGasTransfer :: TransactionRequest where
  \<comment> \<open>The 2 ETH transfer with a negative gas amount, which \<open>bigint\<close> admits.\<close>
  "negativeGasTransfer = transfer2Eth\<lparr>tx_gas := Some (- 3000000000)\<rparr>"

definition negativePriceClient :: PublicClient where
  "negativePriceClient = mockClient\<lparr>getGasPrice_response := (\<lambda>tr. Inr (- 100000000000000))\<rparr>"

definition negativeEstimateClient :: PublicClient where
  "negativeEstimateClient = mockClient\<lparr>estimateGas_response := (\<lambda>tr. Inr (- 3000000000))\<rparr>"



definition approveSpender :: string where
  "approveSpender = ''000000000000000000000000742d35Cc6634C0532925a3b8D23C5d3ce87CDD4b''"

definition approveUnlimited :: string where
  "approveUnlimited = ''0x095ea7b3'' @ approveSpender @ replicate 64 (CHR ''f'')"

definition approveZero :: string where
  "approveZero = ''0x095ea7b3'' @ approveSpender @ replicate 64 (CHR ''0'')"

definition approveUnlimitedUpper :: string where
  \<comment> \<open>The unlimited approval with its amount written in upper-case digits.\<close>
  "approveUnlimitedUpper = ''0x095ea7b3'' @ approveSpender @ replicate 64 (CHR ''F'')"

section \<open>The states a firewall can reach\<close>

text \<open>
  A firewall is built by its constructor and then changed only by its public methods:
  \<open>check\<close>, \<open>recordSpend\<close>, \<open>resetDailySpend\<close>, \<open>getStatus\<close>, \<open>getRemainingDaily\<close>,
  \<open>blockContract\<close> and \<open>allowContract\<close> (\<open>simulate\<close> changes nothing).
\<close>

inductive reachable :: "TransactionFirewall \<Rightarrow> bool" where
  constructed: "reachable (new_TransactionFirewall today c config)"
| checked: "reachable fw \<Longrightarrow>
            reachable (fst (snd (firewall_check formatWei toLocaleString today fw tx tr)))"
| recorded: "reachable fw \<Longrightarrow> reachable (firewall_recordSpend today amountWei fw)"
| reset: "reachable fw \<Longrightarrow> reachable (firewall_resetDailySpend today fw)"
| status_read: "reachable fw \<Longrightarrow> reachable (snd (firewall_getStatus today fw))"
| remaining_read: "reachable fw \<Longrightarrow> reachable (snd (getRemainingDaily today fw))"
| blocked_added: "reachable fw \<Longrightarrow> reachable (blockContract addr fw)"
| allowed_added: "reachable fw \<Longrightarrow> reachable (snd (allowContract addr fw))"

section \<open>Facts about the ledger\<close>

lemma maybeResetDaily_fields [simp]:
  "maxDaily (maybeResetDaily today s) = maxDaily s"
  "maxPerTx (maybeResetDaily today s) = maxPerTx s"
  "lastResetDate (maybeResetDaily today s) = today"
  by (simp_all add: maybeResetDaily_def)

lemma maybeResetDaily_same_day [simp]:
  "lastResetDate s = today \<Longrightarrow> maybeResetDaily today s = s"
  by (simp add: maybeResetDaily_def)

lemma limits_check_state [simp]:
  "snd (limits_check formatWei today a s0) = maybeResetDaily today s0"
  by (simp add: limits_check_def Let_def)

text \<open>
  Claim C1. For every ledger state and every amount \<open>a\<close>, \<open>check(a)\<close> applies the
  period-boundary reset first and leaves the ledger in the reset state. If \<open>a\<close> exceeds
  the per-transaction cap it rejects with the reason that names that cap, whatever the
  period spend is. Otherwise, if the spend after the reset plus \<open>a\<close> exceeds the period
  cap, it rejects with the reason that cites the current spend, the amount and the cap.
  Otherwise it allows, and the remaining headroom is the period cap minus the spend after
  the reset plus \<open>a\<close>.
\<close>

theorem limits_check_order:
  "snd (limits_check formatWei today a s0) = maybeResetDaily today s0
   \<and> (maxPerTx s0 < a \<longrightarrow>
        (\<forall>d. \<not> sc_allowed (fst (limits_check formatWei today a (s0\<lparr>dailySpend := d\<rparr>)))
           \<and> sc_reason (fst (limits_check formatWei today a (s0\<lparr>dailySpend := d\<rparr>))) =
               Some (''Transaction amount '' @ formatWei a @ '' exceeds per-tx limit of ''
                     @ formatWei (maxPerTx s0))))
   \<and> (a \<le> maxPerTx s0 \<and> maxDaily s0 < dailySpend (maybeResetDaily today s0) + a \<longrightarrow>
        \<not> sc_allowed (fst (limits_check formatWei today a s0))
        \<and> sc_reason (fst (limits_check formatWei today a s0)) =
            Some (''Transaction would exceed daily limit. Current: ''
                  @ formatWei (dailySpend (maybeResetDaily today s0)) @ '', Tx: '' @ formatWei a
                  @ '', Limit: '' @ formatWei (maxDaily s0)))
   \<and> (a \<le> maxPerTx s0 \<and> dailySpend (maybeResetDaily today s0) + a \<le> maxDaily s0 \<longrightarrow>
        sc_allowed (fst (limits_check formatWei today a s0))
        \<and> sc_reason (fst (limits_check formatWei today a s0)) = None
        \<and> sc_remainingDaily (fst (limits_check formatWei today a s0)) =
            maxDaily s0 - (dailySpend (maybeResetDaily today s0) + a))"
  by (simp add: limits_check_def Let_def perTxReason_def dailyReason_def maybeResetDaily_def)

theorem limits_check_order_witness:
  "\<not> sc_allowed (fst (limits_check plainFormat testDate 2
        \<lparr>dailySpend = 0, lastResetDate = testDate, maxDaily = 10, maxPerTx = 1\<rparr>))
   \<and> \<not> sc_allowed (fst (limits_check plainFormat testDate 1
        \<lparr>dailySpend = 10, lastResetDate = testDate, maxDaily = 10, maxPerTx = 1\<rparr>))
   \<and> sc_remainingDaily (fst (limits_check plainFormat testDate 1
        \<lparr>dailySpend = 9, lastResetDate = ''2026-10-31'', maxDaily = 10, maxPerTx = 1\<rparr>)) = 9"
  using limits_check_order [of plainFormat testDate 2
          "\<lparr>dailySpend = 0, lastResetDate = testDate, maxDaily = 10, maxPerTx = 1\<rparr>"]
        limits_check_order [of plainFormat testDate 1
          "\<lparr>dailySpend = 10, lastResetDate = testDate, maxDaily = 10, maxPerTx = 1\<rparr>"]
        limits_check_order [of plainFormat testDate 1
          "\<lparr>dailySpend = 9, lastResetDate = ''2026-10-31'', maxDaily = 10, maxPerTx = 1\<rparr>"]
  by (simp add: maybeResetDaily_def testDate_def)

text \<open>
  Claim C2, as stated, fails: \<open>recordSpend\<close> adds any amount, so on a fresh ledger with a
  period cap of 10 a recorded amount of 11 leaves the period spend above the cap.
\<close>

theorem recordSpend_unguarded_counterexample:
  "\<not> dailySpend (recordSpend testDate 11
          (new_SpendingLimits testDate \<lparr>maxDailySpend = 10, maxPerTxSpend = 1\<rparr>))
      \<le> maxDaily (recordSpend testDate 11
          (new_SpendingLimits testDate \<lparr>maxDailySpend = 10, maxPerTxSpend = 1\<rparr>))"
  by (simp add: recordSpend_def new_SpendingLimits_def maybeResetDaily_def Let_def)

text \<open>
  Claim C2, amended. \<open>recordSpend\<close> never rejects: for every amount it sets the period
  spend to the spend after the boundary reset plus the amount and keeps the cap. The
  period spend is at most the period cap after a \<open>recordSpend(a)\<close> that follows a passing
  \<open>check(a)\<close> on the same ledger at the same date.
\<close>

theorem recordSpend_after_passing_check:
  "dailySpend (recordSpend today a s) = dailySpend (maybeResetDaily today s) + a
   \<and> maxDaily (recordSpend today a s) = maxDaily s
   \<and> (sc_allowed (fst (limits_check formatWei today a s)) \<longrightarrow>
        dailySpend (recordSpend today a (snd (limits_check formatWei today a s))) \<le> maxDaily s)"
  by (simp add: recordSpend_def limits_check_def Let_def maybeResetDaily_def)

theorem recordSpend_after_passing_check_witness:
  "sc_allowed (fst (limits_check plainFormat testDate 1
        \<lparr>dailySpend = 9, lastResetDate = testDate, maxDaily = 10, maxPerTx = 1\<rparr>))
   \<and> dailySpend (recordSpend testDate 1
        (snd (limits_check plainFormat testDate 1
           \<lparr>dailySpend = 9, lastResetDate = testDate, maxDaily = 10, maxPerTx = 1\<rparr>))) \<le> 10"
proof -
  have ok: "sc_allowed (fst (limits_check plainFormat testDate 1
        \<lparr>dailySpend = 9, lastResetDate = testDate, maxDaily = 10, maxPerTx = 1\<rparr>))"
    by (simp add: limits_check_def Let_def)
  show ?thesis
    using ok recordSpend_after_passing_check [of testDate 1
        "\<lparr>dailySpend = 9, lastResetDate = testDate, maxDaily = 10, maxPerTx = 1\<rparr>" plainFormat]
    by simp
qed

section \<open>Facts about the classification of destinations\<close>

lemma lower_mockAddress:
  "toLowerCase mockAddress = ''0x742d35cc6634c0532925a3b8d23c5d3ce87cdd4b''"
  unfolding mockAddress_def by code_simp

lemma lower_mockContract:
  "toLowerCase mockContract = ''0x1234567890123456789012345678901234567890''"
  unfolding mockContract_def by code_simp

lemma lower_maliciousContract:
  "toLowerCase maliciousContract = ''0x0000000000000000000000000000000000000000''"
  unfolding maliciousContract_def by code_simp

lemma lower_KNOWN_MALICIOUS:
  "map toLowerCase KNOWN_MALICIOUS_CONTRACTS = [''0x0000000000000000000000000000000000000000'']"
  unfolding KNOWN_MALICIOUS_CONTRACTS_def by code_simp

lemma lower_SAFE_SYSTEM:
  "map toLowerCase SAFE_SYSTEM_CONTRACTS =
     [''0x4200000000000000000000000000000000000006'',
      ''0x833589fcd6edb6e08f4c7c32d4f71b54bda02913'',
      ''0xd9aaec86b65d86f6a7b5b1b0c42ffa531710b6ca'',
      ''0x50c5725949a6f0c72e6c4a641f24049a917db0cb'',
      ''0x2ae3f1ec7f1f5012cfeab0185bfc7aa3cf0dec22'',
      ''0x940181a94a35a4569e4529a3cdfb74e38fd98631'']"
  unfolding SAFE_SYSTEM_CONTRACTS_def by code_simp

lemma lower_weth:
  "toLowerCase ''0x4200000000000000000000000000000000000006'' =
     ''0x4200000000000000000000000000000000000006''"
  by code_simp

lemma lower_usdc_upper:
  "toLowerCase ''0X833589FCD6EDB6E08F4C7C32D4F71B54BDA02913'' =
     ''0x833589fcd6edb6e08f4c7c32d4f71b54bda02913''"
  by code_simp

text \<open>
  Claim C3. Classification compares the lower-cased address and follows a fixed
  precedence. An address in the block set is \<open>blocked\<close> and not allowed, whatever the
  other sets hold. Otherwise an address in the system-safe set, when that set is
  honoured, is \<open>system_safe\<close> and allowed. Otherwise, in allow-list mode, an address in
  the allow set is \<open>allowed\<close> and any other is \<open>not_in_allowlist\<close> and not allowed; in
  default-allow mode the address is \<open>allowed\<close>. Two spellings of one address that differ
  in case only are classified alike.
\<close>

theorem allowlist_check_precedence:
  "(toLowerCase addr \<in> blocklist al \<longrightarrow>
      status (allowlist_check al addr) = Blocked \<and> \<not> cc_allowed (allowlist_check al addr))
   \<and> (toLowerCase addr \<notin> blocklist al \<and> honorSystemContracts al
        \<and> toLowerCase addr \<in> systemContracts al \<longrightarrow>
      status (allowlist_check al addr) = SystemSafe \<and> cc_allowed (allowlist_check al addr))
   \<and> (toLowerCase addr \<notin> blocklist al
        \<and> \<not> (honorSystemContracts al \<and> toLowerCase addr \<in> systemContracts al) \<longrightarrow>
      (case allowlist al of
         Some allowSet \<Rightarrow>
           (toLowerCase addr \<in> allowSet \<longrightarrow>
              status (allowlist_check al addr) = Allowed \<and> cc_allowed (allowlist_check al addr))
           \<and> (toLowerCase addr \<notin> allowSet \<longrightarrow>
              status (allowlist_check al addr) = NotInAllowlist
              \<and> \<not> cc_allowed (allowlist_check al addr))
       | None \<Rightarrow>
           status (allowlist_check al addr) = Allowed \<and> cc_allowed (allowlist_check al addr)))
   \<and> (toLowerCase addr' = toLowerCase addr \<longrightarrow>
        status (allowlist_check al addr') = status (allowlist_check al addr)
        \<and> cc_allowed (allowlist_check al addr') = cc_allowed (allowlist_check al addr))"
  by (simp add: allowlist_check_def Let_def split: option.splits)

theorem allowlist_check_precedence_witness:
  "status (allowlist_check
      (new_ContractAllowlist
         \<lparr>allowedContracts = Some [''0x4200000000000000000000000000000000000006''],
          blockedContracts = Some [''0x4200000000000000000000000000000000000006''],
          allowSystemContracts = None\<rparr>)
      ''0x4200000000000000000000000000000000000006'') = Blocked
   \<and> status (allowlist_check
      (new_ContractAllowlist
         \<lparr>allowedContracts = Some [], blockedContracts = None, allowSystemContracts = None\<rparr>)
      ''0X833589FCD6EDB6E08F4C7C32D4F71B54BDA02913'') = SystemSafe
   \<and> status (allowlist_check
      (new_ContractAllowlist
         \<lparr>allowedContracts = Some [mockAddress], blockedContracts = None,
          allowSystemContracts = None\<rparr>)
      mockContract) = NotInAllowlist
   \<and> status (allowlist_check
      (new_ContractAllowlist
         \<lparr>allowedContracts = Some [mockAddress], blockedContracts = None,
          allowSystemContracts = None\<rparr>)
      mockAddress) = Allowed
   \<and> status (allowlist_check
      (new_ContractAllowlist
         \<lparr>allowedContracts = None, blockedContracts = None, allowSystemContracts = None\<rparr>)
      mockContract) = Allowed"
  using allowlist_check_precedence
     [of "''0x4200000000000000000000000000000000000006''"
         "new_ContractAllowlist
           \<lparr>allowedContracts = Some [''0x4200000000000000000000000000000000000006''],
            blockedContracts = Some [''0x4200000000000000000000000000000000000006''],
            allowSystemContracts = None\<rparr>"]
    allowlist_check_precedence
     [of "''0X833589FCD6EDB6E08F4C7C32D4F71B54BDA02913''"
         "new_ContractAllowlist
           \<lparr>allowedContracts = Some [], blockedContracts = None, allowSystemContracts = None\<rparr>"]
    allowlist_check_precedence
     [of mockContract
         "new_ContractAllowlist
           \<lparr>allowedContracts = Some [mockAddress], blockedContracts = None,
            allowSystemContracts = None\<rparr>"]
    allowlist_check_precedence
     [of mockAddress
         "new_ContractAllowlist
           \<lparr>allowedContracts = Some [mockAddress], blockedContracts = None,
            allowSystemContracts = None\<rparr>"]
    allowlist_check_precedence
     [of mockContract
         "new_ContractAllowlist
           \<lparr>allowedContracts = None, blockedContracts = None, allowSystemContracts = None\<rparr>"]
  by (simp add: new_ContractAllowlist_def lower_KNOWN_MALICIOUS lower_SAFE_SYSTEM
        lower_weth lower_usdc_upper lower_mockAddress lower_mockContract)

section \<open>Facts about the pipeline\<close>

lemma checkAll_destination:
  "tx_to tx = Some addr \<Longrightarrow> addr \<noteq> [] \<Longrightarrow>
   checkAll al (extractContractAddresses tx) = [allowlist_check al addr]"
  by (simp add: checkAll_def extractContractAddresses_def)

lemma testFirewall_allowlist:
  "fw_allowlist (new_TransactionFirewall testDate c testConfig) =
     \<lparr>allowlist = None, blocklist = {''0x0000000000000000000000000000000000000000''},
      systemContracts = set (map toLowerCase SAFE_SYSTEM_CONTRACTS), honorSystemContracts = True\<rparr>"
  by (simp add: new_TransactionFirewall_def new_ContractAllowlist_def testConfig_def
        lower_KNOWN_MALICIOUS)

lemma malicious_rejected:
  "allowlist_check (fw_allowlist (new_TransactionFirewall testDate mockClient testConfig))
     maliciousContract
   = \<lparr>cc_allowed = False,
       cc_reason = Some (''Contract '' @ maliciousContract @ '' is blocked (malicious or user-blocked)''),
       contractAddress = maliciousContract, status = Blocked\<rparr>"
  by (simp add: testFirewall_allowlist allowlist_check_def lower_maliciousContract)

text \<open>
  Claim C4. When the destination of a transaction is classified as not allowed (blocked,
  or missing from the allow list), the pipeline's check returns the rejected decision
  that carries the reason of that classification and no estimated spend and no
  simulation result. The ledger and the trace of client requests are left as they were,
  so no spend estimate, ledger check or simulation call is made, and the decision is the
  same for every ledger, simulator, simulation setting and payer.
\<close>

theorem firewall_check_rejects_at_classification:
  assumes "tx_to tx = Some addr" and "addr \<noteq> []"
    and "\<not> cc_allowed (allowlist_check (fw_allowlist fw) addr)"
  shows "firewall_check formatWei toLocaleString today fw tx tr =
           (\<lparr>allowed = False,
             reason = cc_reason (allowlist_check (fw_allowlist fw) addr),
             warnings = Some [],
             simulationResult = None,
             contractsChecked = Some [allowlist_check (fw_allowlist fw) addr],
             estimatedSpend = None\<rparr>, fw, tr)
         \<and> (\<forall>l sm rs p.
               fst (firewall_check formatWei toLocaleString today
                      (fw\<lparr>limits := l, simulator := sm, requireSimulation := rs, payerAddress := p\<rparr>)
                      tx tr)
               = fst (firewall_check formatWei toLocaleString today fw tx tr))"
  using assms by (simp add: firewall_check_def Let_def checkAll_destination)

theorem firewall_check_rejects_at_classification_witness:
  "firewall_check plainFormat plainFormat testDate
      (new_TransactionFirewall testDate mockClient testConfig)
      \<lparr>tx_to = Some maliciousContract, tx_data = None, tx_value = Some (ether div 10),
       tx_gas = None, tx_from = Some mockAddress\<rparr> []
   = (\<lparr>allowed = False,
       reason = Some (''Contract '' @ maliciousContract @ '' is blocked (malicious or user-blocked)''),
       warnings = Some [], simulationResult = None,
       contractsChecked = Some
         [\<lparr>cc_allowed = False,
           cc_reason = Some (''Contract '' @ maliciousContract @ '' is blocked (malicious or user-blocked)''),
           contractAddress = maliciousContract, status = Blocked\<rparr>],
       estimatedSpend = None\<rparr>,
      new_TransactionFirewall testDate mockClient testConfig, [])"
proof -
  have ne: "maliciousContract \<noteq> []"
    by (simp add: maliciousContract_def)
  have rej: "\<not> cc_allowed (allowlist_check
        (fw_allowlist (new_TransactionFirewall testDate mockClient testConfig)) maliciousContract)"
    by (simp add: malicious_rejected)
  show ?thesis
    using firewall_check_rejects_at_classification
      [of "\<lparr>tx_to = Some maliciousContract, tx_data = None, tx_value = Some (ether div 10),
            tx_gas = None, tx_from = Some mockAddress\<rparr>"
          maliciousContract "new_TransactionFirewall testDate mockClient testConfig"
          plainFormat plainFormat testDate "[]", OF _ ne rej]
    by (simp add: malicious_rejected)
qed

section \<open>Facts about the public accessors\<close>

lemma recordSpend_same_day:
  "lastResetDate s = today \<Longrightarrow> recordSpend today a s = s\<lparr>dailySpend := dailySpend s + a\<rparr>"
  by (simp add: recordSpend_def Let_def)

lemma foldl_recordSpend_same_day:
  "lastResetDate (limits fw) = today \<Longrightarrow>
   limits (foldl (\<lambda>fw a. firewall_recordSpend today a fw) fw as)
     = (limits fw)\<lparr>dailySpend := dailySpend (limits fw) + sum_list as\<rparr>"
proof (induction as arbitrary: fw)
  case Nil
  then show ?case by simp
next
  case (Cons a as)
  have "lastResetDate (limits (firewall_recordSpend today a fw)) = today"
    using Cons.prems by (simp add: firewall_recordSpend_def recordSpend_same_day)
  from Cons.IH [OF this] show ?case
    using Cons.prems by (simp add: firewall_recordSpend_def recordSpend_same_day add.assoc)
qed

lemma getRemainingDaily_value:
  "fst (getRemainingDaily today fw)
     = maxDaily (limits fw) - dailySpend (maybeResetDaily today (limits fw))"
  by (simp add: getRemainingDaily_def limits_getStatus_def Let_def)

lemma getStatus_remaining:
  "remainingDaily (spending (fst (firewall_getStatus today fw)))
     = maxDaily (limits fw) - dailySpend (maybeResetDaily today (limits fw))"
  by (simp add: firewall_getStatus_def limits_getStatus_def Let_def)

text \<open>
  Claim C9. For every ledger state, \<open>getRemainingDaily()\<close> and
  \<open>getStatus().spending.remainingDaily\<close> return the daily limit minus the daily spend
  (read after the boundary reset), with no clamping at zero. As \<open>recordSpend\<close> adds
  without a check, once the spend recorded during one day exceeds the daily limit both
  accessors return a negative value.
\<close>

theorem remaining_daily_not_clamped:
  "fst (getRemainingDaily today fw)
     = maxDaily (limits fw) - dailySpend (maybeResetDaily today (limits fw))
   \<and> remainingDaily (spending (fst (firewall_getStatus today fw)))
     = maxDaily (limits fw) - dailySpend (maybeResetDaily today (limits fw))
   \<and> (lastResetDate (limits fw) = today
        \<and> maxDaily (limits fw) < dailySpend (limits fw) + sum_list amounts \<longrightarrow>
        fst (getRemainingDaily today
               (foldl (\<lambda>fw a. firewall_recordSpend today a fw) fw amounts)) < 0
        \<and> remainingDaily (spending (fst (firewall_getStatus today
               (foldl (\<lambda>fw a. firewall_recordSpend today a fw) fw amounts)))) < 0)"
  by (simp add: getRemainingDaily_value getStatus_remaining foldl_recordSpend_same_day)

theorem remaining_daily_not_clamped_witness:
  "fst (getRemainingDaily testDate
          (foldl (\<lambda>fw a. firewall_recordSpend testDate a fw)
             (new_TransactionFirewall testDate mockClient testConfig) [6 * ether, 5 * ether])) < 0"
  using remaining_daily_not_clamped
     [of testDate "new_TransactionFirewall testDate mockClient testConfig" "[6 * ether, 5 * ether]"]
  by (simp add: new_TransactionFirewall_def new_SpendingLimits_def testConfig_def ether_def)

section \<open>Facts about system-safe destinations\<close>

lemma firewall_check_allowlist [simp]:
  "fw_allowlist (fst (snd (firewall_check formatWei toLocaleString today fw tx tr))) = fw_allowlist fw"
  by (simp add: firewall_check_def Let_def case_prod_beta split: option.splits)

lemma reachable_system_safe:
  "reachable fw \<Longrightarrow>
   honorSystemContracts (fw_allowlist fw)
   \<and> systemContracts (fw_allowlist fw) = set (map toLowerCase SAFE_SYSTEM_CONTRACTS)"
proof (induction rule: reachable.induct)
  case (constructed today c config)
  show ?case by (simp add: new_TransactionFirewall_def new_ContractAllowlist_def)
next
  case (checked fw formatWei toLocaleString today tx tr)
  then show ?case by simp
next
  case (recorded fw today amountWei)
  then show ?case by (simp add: firewall_recordSpend_def)
next
  case (reset fw today)
  then show ?case by (simp add: firewall_resetDailySpend_def)
next
  case (status_read fw today)
  then show ?case by (simp add: firewall_getStatus_def split: prod.splits)
next
  case (remaining_read fw today)
  then show ?case by (simp add: getRemainingDaily_def split: prod.splits)
next
  case (blocked_added fw addr)
  then show ?case by (simp add: blockContract_def addToBlocklist_def)
next
  case (allowed_added fw addr)
  then show ?case
    by (simp add: allowContract_def addToAllowlist_def split: option.splits)
qed

lemma simulateAndScan_allowed:
  "allowed (fst (simulateAndScan g fw tx cs est ws tr))
     = (requireSimulation fw \<longrightarrow> success (fst (simulate g (simulator fw) tx tr)))"
  by (simp add: simulateAndScan_def firewall_simulate_def Let_def case_prod_beta)

lemma simulateAndScan_contractsChecked:
  "contractsChecked (fst (simulateAndScan g fw tx cs est ws tr)) = Some cs"
  by (simp add: simulateAndScan_def Let_def case_prod_beta)

lemma lower_nonempty:
  "toLowerCase addr \<in> set (map toLowerCase SAFE_SYSTEM_CONTRACTS) \<Longrightarrow> addr \<noteq> []"
  by (auto simp: SAFE_SYSTEM_CONTRACTS_def toLowerCase_def)

text \<open>
  Claim C10, amended. The constructor of the firewall passes no \<open>allowSystemContracts\<close>
  option to the allowlist, so system-safe handling is on for every configuration, and no
  public method turns it off. Hence, for every firewall that can be reached, a
  destination in the built-in system-safe set (compared in lower case) that is not in
  the block set is classified \<open>system_safe\<close> with \<open>allowed = true\<close>, also in allow-list
  mode with an empty allow list, and the pipeline's check reports exactly this
  classification. The destination never makes the check reject: the decision is allowed
  exactly when the ledger accepts the estimated spend (if a payer is configured) and the
  simulation succeeds (if simulation is required).
\<close>

theorem system_safe_destination_allowed:
  assumes "reachable fw"
    and "toLowerCase addr \<in> set (map toLowerCase SAFE_SYSTEM_CONTRACTS)"
    and "toLowerCase addr \<notin> blocklist (fw_allowlist fw)"
  shows "allowlist_check (fw_allowlist fw) addr
           = \<lparr>cc_allowed = True, cc_reason = None, contractAddress = addr, status = SystemSafe\<rparr>
         \<and> (tx_to tx = Some addr \<longrightarrow>
              contractsChecked (fst (firewall_check formatWei toLocaleString today fw tx tr))
                = Some [\<lparr>cc_allowed = True, cc_reason = None, contractAddress = addr,
                         status = SystemSafe\<rparr>]
              \<and> (allowed (fst (firewall_check formatWei toLocaleString today fw tx tr))
                   \<longleftrightarrow>
                  (truthyStr (payerAddress fw) \<longrightarrow>
                     sc_allowed (fst (limits_check formatWei today
                        (se_estimatedSpend (fst (estimateSpend toLocaleString (simulator fw) tx tr)))
                        (limits fw))))
                  \<and> (requireSimulation fw \<longrightarrow>
                     success (fst (simulate toLocaleString (simulator fw) tx
                        (if truthyStr (payerAddress fw)
                         then snd (estimateSpend toLocaleString (simulator fw) tx tr)
                         else tr))))))"
proof -
  have inv: "honorSystemContracts (fw_allowlist fw)"
    "systemContracts (fw_allowlist fw) = set (map toLowerCase SAFE_SYSTEM_CONTRACTS)"
    using reachable_system_safe [OF assms(1)] by simp_all
  have cls: "allowlist_check (fw_allowlist fw) addr
           = \<lparr>cc_allowed = True, cc_reason = None, contractAddress = addr, status = SystemSafe\<rparr>"
    using inv assms(2,3) by (simp add: allowlist_check_def)
  have ne: "addr \<noteq> []" using assms(2) by (rule lower_nonempty)
  {
    assume to: "tx_to tx = Some addr"
    have all: "checkAll (fw_allowlist fw) (extractContractAddresses tx)
                 = [\<lparr>cc_allowed = True, cc_reason = None, contractAddress = addr, status = SystemSafe\<rparr>]"
      using to ne cls by (simp add: checkAll_def extractContractAddresses_def)
    have c1: "contractsChecked (fst (firewall_check formatWei toLocaleString today fw tx tr))
                = Some [\<lparr>cc_allowed = True, cc_reason = None, contractAddress = addr,
                         status = SystemSafe\<rparr>]"
      by (simp add: firewall_check_def Let_def all simulateAndScan_contractsChecked
            case_prod_beta)
    have c2: "allowed (fst (firewall_check formatWei toLocaleString today fw tx tr))
                   \<longleftrightarrow>
                  (truthyStr (payerAddress fw) \<longrightarrow>
                     sc_allowed (fst (limits_check formatWei today
                        (se_estimatedSpend (fst (estimateSpend toLocaleString (simulator fw) tx tr)))
                        (limits fw))))
                  \<and> (requireSimulation fw \<longrightarrow>
                     success (fst (simulate toLocaleString (simulator fw) tx
                        (if truthyStr (payerAddress fw)
                         then snd (estimateSpend toLocaleString (simulator fw) tx tr)
                         else tr))))"
      by (simp add: firewall_check_def Let_def all case_prod_beta simulateAndScan_allowed)
    note c1 c2
  }
  with cls show ?thesis by blast
qed

section \<open>Facts about the simulator\<close>

lemma callAttempts_append [simp]:
  "callAttempts (xs @ ys) = callAttempts xs + callAttempts ys"
  by (simp add: callAttempts_def)

lemma callAttempts_simps [simp]:
  "callAttempts [] = 0"
  "callAttempts (Call t d v g f # tr) = Suc (callAttempts tr)"
  "callAttempts (EstimateGas t d v f # tr) = callAttempts tr"
  "callAttempts (GetGasPrice # tr) = callAttempts tr"
  "callAttempts (Sleep ms # tr) = callAttempts tr"
  by (simp_all add: callAttempts_def)







lemma estimateSpend_trace:
  "snd (estimateSpend g sim tx tr)
     = tr @ GetGasPrice #
         (if \<not> truthyInt (tx_gas tx) \<and> truthyStr (tx_to tx) \<and> truthyStr (tx_from tx)
          then [EstimateGas (tx_to tx) (tx_data tx) (tx_value tx) (tx_from tx)] else [])"
  by (simp add: estimateSpend_def rpc_getGasPrice_def rpc_estimateGas_def Let_def
        split: sum.splits)

lemma estimateSpend_lower:
  assumes "\<forall>t p. getGasPrice_response (client sim) t = Inr p \<longrightarrow> 0 \<le> p"
    and "\<forall>t e. estimateGas_response (client sim) t = Inr e \<longrightarrow> 0 \<le> e"
    and "\<forall>x. tx_gas tx = Some x \<longrightarrow> 0 \<le> x"
    and "tx_value tx = Some v"
  shows "v \<le> se_estimatedSpend (fst (estimateSpend g sim tx tr))"
  using assms
  by (auto simp: estimateSpend_def rpc_getGasPrice_def rpc_estimateGas_def Let_def
        split: sum.splits option.splits)

text \<open>
  Claim C5, amended. With a payer configured and a per-transaction cap of 1 ETH, for a
  2 ETH transfer to an allowed destination whose gas, and a client whose gas price and
  gas estimate, are not negative, the pipeline rejects with the per-transaction reason,
  the estimate being at least 2 ETH, and no simulation runs: the decision has no
  simulation result and the trace gains no read-only execution call. Spend estimation
  does query the client before the ledger is consulted: the trace gains exactly the
  gas-price request, followed by the gas-estimate request exactly when the transaction
  supplies no gas (none, or zero) and has a destination and a sender.
\<close>

theorem per_tx_rejection_before_simulation:
  assumes "truthyStr (payerAddress fw)"
    and "maxPerTx (limits fw) = 1 * ether"
    and "tx_to tx = Some addr" and "addr \<noteq> []"
    and "cc_allowed (allowlist_check (fw_allowlist fw) addr)"
    and "tx_value tx = Some (2 * ether)"
    and "\<forall>x. tx_gas tx = Some x \<longrightarrow> 0 \<le> x"
    and "\<forall>t p. getGasPrice_response (client (simulator fw)) t = Inr p \<longrightarrow> 0 \<le> p"
    and "\<forall>t e. estimateGas_response (client (simulator fw)) t = Inr e \<longrightarrow> 0 \<le> e"
  shows "\<not> allowed (fst (firewall_check formatWei toLocaleString today fw tx tr))
     \<and> (\<exists>spend. 2 * ether \<le> spend
          \<and> estimatedSpend (fst (firewall_check formatWei toLocaleString today fw tx tr)) = Some spend
          \<and> reason (fst (firewall_check formatWei toLocaleString today fw tx tr))
              = Some (''Transaction amount '' @ formatWei spend @ '' exceeds per-tx limit of ''
                      @ formatWei (1 * ether)))
     \<and> simulationResult (fst (firewall_check formatWei toLocaleString today fw tx tr)) = None
     \<and> callAttempts (snd (snd (firewall_check formatWei toLocaleString today fw tx tr)))
          = callAttempts tr
     \<and> snd (snd (firewall_check formatWei toLocaleString today fw tx tr))
          = tr @ GetGasPrice #
              (if \<not> truthyInt (tx_gas tx) \<and> truthyStr (tx_to tx) \<and> truthyStr (tx_from tx)
               then [EstimateGas (tx_to tx) (tx_data tx) (tx_value tx) (tx_from tx)] else [])"
proof -
  let ?se = "estimateSpend toLocaleString (simulator fw) tx tr"
  let ?spend = "se_estimatedSpend (fst ?se)"
  let ?lc = "limits_check formatWei today ?spend (limits fw)"
  have all: "checkAll (fw_allowlist fw) (extractContractAddresses tx)
               = [allowlist_check (fw_allowlist fw) addr]"
    using assms(3,4) by (rule checkAll_destination)
  have low: "2 * ether \<le> ?spend"
    using estimateSpend_lower [OF assms(8) assms(9) assms(7) assms(6)] .
  have over: "maxPerTx (limits fw) < ?spend"
    using low assms(2) by (simp add: ether_def)
  have rej: "\<not> sc_allowed (fst ?lc)"
    and why: "sc_reason (fst ?lc) = Some (''Transaction amount '' @ formatWei ?spend
                @ '' exceeds per-tx limit of '' @ formatWei (1 * ether))"
    using over assms(2) by (simp_all add: limits_check_def Let_def perTxReason_def)
  have eq: "firewall_check formatWei toLocaleString today fw tx tr
          = (\<lparr>allowed = False, reason = sc_reason (fst ?lc),
               warnings = Some (se_warnings (fst ?se)),
               simulationResult = None,
               contractsChecked = Some [allowlist_check (fw_allowlist fw) addr],
               estimatedSpend = Some ?spend\<rparr>,
             fw\<lparr>limits := snd ?lc\<rparr>, snd ?se)"
    using assms(1,5) rej by (simp add: firewall_check_def Let_def all case_prod_beta)
  have tr: "snd ?se = tr @ GetGasPrice #
              (if \<not> truthyInt (tx_gas tx) \<and> truthyStr (tx_to tx) \<and> truthyStr (tx_from tx)
               then [EstimateGas (tx_to tx) (tx_data tx) (tx_value tx) (tx_from tx)] else [])"
    by (rule estimateSpend_trace)
  have calls: "callAttempts (snd ?se) = callAttempts tr"
    unfolding tr by simp
  show ?thesis
    unfolding eq using low why tr calls by simp
qed

section \<open>Examples on the fixtures of the test suite\<close>

lemma testFirewall_fields:
  "payerAddress (new_TransactionFirewall testDate c testConfig) = Some mockAddress"
  "requireSimulation (new_TransactionFirewall testDate c testConfig) = False"
  "limits (new_TransactionFirewall testDate c testConfig)
     = \<lparr>dailySpend = 0, lastResetDate = testDate, maxDaily = 10 * ether, maxPerTx = 1 * ether\<rparr>"
  "simulator (new_TransactionFirewall testDate c testConfig)
     = \<lparr>client = c, sim_chain = base, maxRetries = 2\<rparr>"
  by (simp_all add: new_TransactionFirewall_def testConfig_def new_SpendingLimits_def
        new_TransactionSimulator_def)

lemma mockAddress_allowed:
  "allowlist_check (fw_allowlist (new_TransactionFirewall testDate c testConfig)) mockAddress
     = \<lparr>cc_allowed = True, cc_reason = None, contractAddress = mockAddress, status = Allowed\<rparr>"
  by (simp add: testFirewall_allowlist allowlist_check_def lower_mockAddress lower_SAFE_SYSTEM)

lemma mockClient_responses:
  "call_response mockClient t
     = Inr (Some ''0x0000000000000000000000000000000000000000000000000000000000000001'')"
  "estimateGas_response mockClient t = Inr 21000"
  "getGasPrice_response mockClient t = Inr 1000000000"
  by (simp_all add: mockClient_def)

lemma mockAddress_nonempty: "mockAddress \<noteq> []"
  by (simp add: mockAddress_def)

lemma negativePrice_responses:
  "estimateGas_response negativePriceClient t = Inr 21000"
  "getGasPrice_response negativePriceClient t = Inr (- 100000000000000)"
  by (simp_all add: negativePriceClient_def mockClient_def)

lemma negativeEstimate_responses:
  "estimateGas_response negativeEstimateClient t = Inr (- 3000000000)"
  "getGasPrice_response negativeEstimateClient t = Inr 1000000000"
  by (simp_all add: negativeEstimateClient_def mockClient_def)

lemma accepted_negativeGas:
  "allowed (fst (firewall_check plainFormat plainFormat testDate
      (new_TransactionFirewall testDate mockClient testConfig) negativeGasTransfer []))"
  by (simp add: firewall_check_def simulateAndScan_def Let_def checkAll_def
        extractContractAddresses_def mockAddress_allowed mockAddress_nonempty
        testFirewall_fields truthyStr_def truthyInt_def estimateSpend_def rpc_getGasPrice_def
        rpc_estimateGas_def mockClient_responses limits_check_def ether_def case_prod_beta
        negativeGasTransfer_def transfer2Eth_def)

lemma accepted_negativePrice:
  "allowed (fst (firewall_check plainFormat plainFormat testDate
      (new_TransactionFirewall testDate negativePriceClient testConfig) transfer2Eth []))"
  by (simp add: firewall_check_def simulateAndScan_def Let_def checkAll_def
        extractContractAddresses_def mockAddress_allowed mockAddress_nonempty
        testFirewall_fields truthyStr_def truthyInt_def estimateSpend_def rpc_getGasPrice_def
        rpc_estimateGas_def negativePrice_responses limits_check_def ether_def case_prod_beta
        transfer2Eth_def)

lemma accepted_negativeEstimate:
  "allowed (fst (firewall_check plainFormat plainFormat testDate
      (new_TransactionFirewall testDate negativeEstimateClient testConfig) transfer2Eth []))"
  by (simp add: firewall_check_def simulateAndScan_def Let_def checkAll_def
        extractContractAddresses_def mockAddress_allowed mockAddress_nonempty
        testFirewall_fields truthyStr_def truthyInt_def estimateSpend_def rpc_getGasPrice_def
        rpc_estimateGas_def negativeEstimate_responses limits_check_def ether_def case_prod_beta
        transfer2Eth_def)

lemma rpc_observed:
  "snd (snd (firewall_check plainFormat plainFormat testDate
      (new_TransactionFirewall testDate mockClient testConfig)
      transfer2Eth []))
   = [GetGasPrice, EstimateGas (Some mockAddress) None (Some (2 * ether)) (Some mockAddress)]"
  by (simp add: firewall_check_def Let_def checkAll_def extractContractAddresses_def
        mockAddress_allowed mockAddress_nonempty testFirewall_fields truthyStr_def truthyInt_def
        estimateSpend_def rpc_getGasPrice_def rpc_estimateGas_def mockClient_responses
        limits_check_def ether_def case_prod_beta transfer2Eth_def)

text \<open>
  Claim C5, as stated, fails twice. During the check of the 2 ETH transfer of the test
  suite the client receives a gas-price request and a gas-estimate request, so requests
  to the chain are observed. And the rejection itself depends on the signs of the gas
  figures, which are never checked: the 2 ETH transfer is accepted when it carries a
  negative gas amount, when the client reports a negative gas price, and when the client
  reports a negative gas estimate, as the estimated spend then falls below the cap.
\<close>

theorem per_tx_rejection_counterexample:
  "snd (snd (firewall_check plainFormat plainFormat testDate
      (new_TransactionFirewall testDate mockClient testConfig)
      transfer2Eth []))
   = [GetGasPrice, EstimateGas (Some mockAddress) None (Some (2 * ether)) (Some mockAddress)]
   \<and> allowed (fst (firewall_check plainFormat plainFormat testDate
      (new_TransactionFirewall testDate mockClient testConfig) negativeGasTransfer []))
   \<and> allowed (fst (firewall_check plainFormat plainFormat testDate
      (new_TransactionFirewall testDate negativePriceClient testConfig) transfer2Eth []))
   \<and> allowed (fst (firewall_check plainFormat plainFormat testDate
      (new_TransactionFirewall testDate negativeEstimateClient testConfig) transfer2Eth []))"
  using rpc_observed accepted_negativeGas accepted_negativePrice accepted_negativeEstimate
  by blast

theorem per_tx_rejection_before_simulation_witness:
  "\<not> allowed (fst (firewall_check plainFormat plainFormat testDate
      (new_TransactionFirewall testDate mockClient testConfig) transfer2Eth []))
   \<and> snd (snd (firewall_check plainFormat plainFormat testDate
      (new_TransactionFirewall testDate mockClient testConfig) transfer2Eth []))
     = [GetGasPrice, EstimateGas (Some mockAddress) None (Some (2 * ether)) (Some mockAddress)]
   \<and> \<not> allowed (fst (firewall_check plainFormat plainFormat testDate
      (new_TransactionFirewall testDate mockClient testConfig)
      (transfer2Eth\<lparr>tx_gas := Some 21000\<rparr>) []))
   \<and> snd (snd (firewall_check plainFormat plainFormat testDate
      (new_TransactionFirewall testDate mockClient testConfig)
      (transfer2Eth\<lparr>tx_gas := Some 21000\<rparr>) []))
     = [GetGasPrice]"
proof -
  let ?fw = "new_TransactionFirewall testDate mockClient testConfig"
  let ?tx = transfer2Eth
  let ?tx' = "transfer2Eth\<lparr>tx_gas := Some 21000\<rparr>"
  have payer: "truthyStr (payerAddress ?fw)"
    by (simp add: testFirewall_fields truthyStr_def mockAddress_nonempty)
  have cap: "maxPerTx (limits ?fw) = 1 * ether"
    by (simp add: testFirewall_fields)
  have dest: "tx_to ?tx = Some mockAddress" "tx_to ?tx' = Some mockAddress"
    by (simp_all add: transfer2Eth_def)
  have ok: "cc_allowed (allowlist_check (fw_allowlist ?fw) mockAddress)"
    by (simp add: mockAddress_allowed)
  have val: "tx_value ?tx = Some (2 * ether)" "tx_value ?tx' = Some (2 * ether)"
    by (simp_all add: transfer2Eth_def)
  have gas: "\<forall>x. tx_gas ?tx = Some x \<longrightarrow> 0 \<le> x" "\<forall>x. tx_gas ?tx' = Some x \<longrightarrow> 0 \<le> x"
    by (simp_all add: transfer2Eth_def)
  have price: "\<forall>t p. getGasPrice_response (client (simulator ?fw)) t = Inr p \<longrightarrow> 0 \<le> p"
    by (simp add: testFirewall_fields mockClient_responses)
  have est: "\<forall>t e. estimateGas_response (client (simulator ?fw)) t = Inr e \<longrightarrow> 0 \<le> e"
    by (simp add: testFirewall_fields mockClient_responses)
  show ?thesis
    using per_tx_rejection_before_simulation
      [OF payer cap dest(1) mockAddress_nonempty ok val(1) gas(1) price est,
       of plainFormat plainFormat testDate "[]"]
      per_tx_rejection_before_simulation
      [OF payer cap dest(2) mockAddress_nonempty ok val(2) gas(2) price est,
       of plainFormat plainFormat testDate "[]"]
    by (simp add: transfer2Eth_def truthyInt_def truthyStr_def mockAddress_nonempty)
qed







lemma startsWith_length: "startsWith d p \<Longrightarrow> length p \<le> length d"
  by (simp add: startsWith_def prefix_length_le)

text \<open>
  Claim C7. Whenever the read-only call of \<open>simulate\<close> succeeds (at once or on a
  retry), the result has \<open>success = true\<close>, no error, and the returned payload as its
  return data, whatever the payload is. A payload that begins with the revert-reason
  prefix \<open>0x08c379a0\<close> puts the revert-reason warning into the warning list, and one
  that begins with the panic prefix \<open>0x4e487b71\<close> puts the panic warning there.
\<close>

theorem return_data_never_fails_simulation:
  assumes "fst (simulateWithRetry sim (rpc_call (client sim) tx) tr) = Inr rd"
  shows "success (fst (simulate toLocaleString sim tx tr))
     \<and> error (fst (simulate toLocaleString sim tx tr)) = None
     \<and> returnData (fst (simulate toLocaleString sim tx tr)) = rd
     \<and> (\<forall>d. rd = Some d \<and> startsWith d ''0x08c379a0'' \<longrightarrow>
          ''Transaction includes revert reason - check contract state''
            \<in> set (sr_warnings (fst (simulate toLocaleString sim tx tr))))
     \<and> (\<forall>d. rd = Some d \<and> startsWith d ''0x4e487b71'' \<longrightarrow>
          ''Transaction would trigger panic (overflow, div by zero, etc.)''
            \<in> set (sr_warnings (fst (simulate toLocaleString sim tx tr))))"
proof -
  obtain tr1 where r: "simulateWithRetry sim (rpc_call (client sim) tx) tr = (Inr rd, tr1)"
    using assms by (cases "simulateWithRetry sim (rpc_call (client sim) tx) tr") simp
  have ok: "success (fst (simulate toLocaleString sim tx tr))
     \<and> error (fst (simulate toLocaleString sim tx tr)) = None
     \<and> returnData (fst (simulate toLocaleString sim tx tr)) = rd"
    by (simp add: simulate_def r Let_def case_prod_beta split: sum.splits)
  have w: "set (case rd of Some d \<Rightarrow> if d \<noteq> [] then analyzeReturnDataForWarnings d else []
                 | None \<Rightarrow> [])
           \<subseteq> set (sr_warnings (fst (simulate toLocaleString sim tx tr)))"
    by (auto simp: simulate_def r Let_def case_prod_beta split: sum.splits)
  {
    fix d assume d: "rd = Some d" and p: "startsWith d ''0x08c379a0''"
    have "10 \<le> length d" using startsWith_length [OF p] by simp
    then have "''Transaction includes revert reason - check contract state''
        \<in> set (case rd of Some d \<Rightarrow> if d \<noteq> [] then analyzeReturnDataForWarnings d else []
                 | None \<Rightarrow> [])"
      using d p by (auto simp: analyzeReturnDataForWarnings_def)
    with w have "''Transaction includes revert reason - check contract state''
        \<in> set (sr_warnings (fst (simulate toLocaleString sim tx tr)))" by blast
  }
  moreover
  {
    fix d assume d: "rd = Some d" and p: "startsWith d ''0x4e487b71''"
    have "10 \<le> length d" using startsWith_length [OF p] by simp
    then have "''Transaction would trigger panic (overflow, div by zero, etc.)''
        \<in> set (case rd of Some d \<Rightarrow> if d \<noteq> [] then analyzeReturnDataForWarnings d else []
                 | None \<Rightarrow> [])"
      using d p by (auto simp: analyzeReturnDataForWarnings_def)
    with w have "''Transaction would trigger panic (overflow, div by zero, etc.)''
        \<in> set (sr_warnings (fst (simulate toLocaleString sim tx tr)))" by blast
  }
  ultimately show ?thesis using ok by blast
qed

lemma revertData_response:
  "call_response revertDataClient t = Inr (Some (''0x08c379a0'' @ replicate 56 (CHR ''0'')))"
  by (simp add: revertDataClient_def)

lemma revertData_retry:
  "simulateWithRetry revertDataSimulator (rpc_call (client revertDataSimulator) tx) []
   = (Inr (Some (''0x08c379a0'' @ replicate 56 (CHR ''0''))),
      [Call (tx_to tx) (tx_data tx) (tx_value tx) (tx_gas tx) (tx_from tx)])"
  by (simp add: simulateWithRetry_def retryLoop.simps [of 2 _ 0] rpc_call_def Let_def
        revertData_response revertDataSimulator_def new_TransactionSimulator_def)

theorem return_data_never_fails_simulation_witness:
  "success (fst (simulate plainFormat
       revertDataSimulator
       approveTx []))
   \<and> ''Transaction includes revert reason - check contract state''
       \<in> set (sr_warnings (fst (simulate plainFormat
       revertDataSimulator
       approveTx [])))"
proof -
  let ?sim = revertDataSimulator
  let ?tx = approveTx
  have call: "fst (simulateWithRetry ?sim (rpc_call (client ?sim) ?tx) [])
                = Inr (Some (''0x08c379a0'' @ replicate 56 (CHR ''0'')))"
    by (simp add: revertData_retry)
  have pre: "startsWith (''0x08c379a0'' @ replicate 56 (CHR ''0'')) ''0x08c379a0''"
    by (simp add: startsWith_def)
  show ?thesis
    using return_data_never_fails_simulation [OF call, of plainFormat] pre by blast
qed

section \<open>Facts about the calldata scan\<close>

lemma checkCalldata_unlimited:
  "checkCalldata approveUnlimited
     = [warnSign @ '' approve - check spender address carefully'', unlimitedApprovalWarning]"
  unfolding approveUnlimited_def approveSpender_def checkCalldata_def by code_simp

lemma checkCalldata_zero:
  "checkCalldata approveZero = [warnSign @ '' approve - check spender address carefully'']"
  unfolding approveZero_def approveSpender_def checkCalldata_def by code_simp

lemma checkCalldata_upper:
  "checkCalldata approveUnlimitedUpper = [warnSign @ '' approve - check spender address carefully'']"
  unfolding approveUnlimitedUpper_def approveSpender_def checkCalldata_def by code_simp

lemma bytes_upper:
  "map_option (take 4) (calldataBytes approveUnlimitedUpper) = Some [0x09, 0x5e, 0xa7, 0xb3]"
  "map_option (\<lambda>bs. take 32 (drop 36 bs)) (calldataBytes approveUnlimitedUpper)
     = Some (replicate 32 0xFF)"
  unfolding approveUnlimitedUpper_def approveSpender_def by code_simp+

lemma warnings_distinct:
  "unlimitedApprovalWarning \<noteq> warnSign @ '' approve - check spender address carefully''"
  unfolding unlimitedApprovalWarning_def warnSign_def alarmSign_def by simp

lemma checkCalldata_lower_case_amount:
  assumes "toLowerCase (slice 0 10 d) = ''0x095ea7b3''" and "138 \<le> length d"
    and "slice 74 138 d = replicate 64 (CHR ''f'')"
  shows "unlimitedApprovalWarning \<in> set (checkCalldata d)"
  using assms by (simp add: checkCalldata_def Let_def)

text \<open>
  Claim C8 holds for an amount written in lower-case digits and fails for the same
  bytes written in upper case. The calldata \<open>approveUnlimitedUpper\<close> denotes the
  approval selector followed by a spender and an amount slot of thirty-two \<open>0xFF\<close>
  bytes, and the scan returns the plain approval warning only: the selector is
  lower-cased before it is compared, the amount is compared as it is written.
\<close>

theorem checkCalldata_upper_case_amount:
  "map_option (take 4) (calldataBytes approveUnlimitedUpper) = Some [0x09, 0x5e, 0xa7, 0xb3]
   \<and> map_option (\<lambda>bs. take 32 (drop 36 bs)) (calldataBytes approveUnlimitedUpper)
       = Some (replicate 32 0xFF)
   \<and> unlimitedApprovalWarning \<notin> set (checkCalldata approveUnlimitedUpper)
   \<and> unlimitedApprovalWarning \<in> set (checkCalldata approveUnlimited)
   \<and> unlimitedApprovalWarning \<notin> set (checkCalldata approveZero)"
  using warnings_distinct
  by (simp add: bytes_upper checkCalldata_upper checkCalldata_unlimited checkCalldata_zero)

section \<open>A system-safe destination under an empty allow list\<close>

lemma lower_wethOnBase:
  "toLowerCase wethOnBase = ''0x4200000000000000000000000000000000000006''"
  unfolding wethOnBase_def by code_simp

lemma emptyAllowlist_fields:
  "payerAddress (new_TransactionFirewall testDate c emptyAllowlistConfig) = Some mockAddress"
  "requireSimulation (new_TransactionFirewall testDate c emptyAllowlistConfig) = False"
  "limits (new_TransactionFirewall testDate c emptyAllowlistConfig)
     = \<lparr>dailySpend = 0, lastResetDate = testDate, maxDaily = 10 * ether, maxPerTx = 1 * ether\<rparr>"
  "simulator (new_TransactionFirewall testDate c emptyAllowlistConfig)
     = \<lparr>client = c, sim_chain = base, maxRetries = 2\<rparr>"
  "fw_allowlist (new_TransactionFirewall testDate c emptyAllowlistConfig)
     = \<lparr>allowlist = Some {}, blocklist = {''0x0000000000000000000000000000000000000000''},
        systemContracts = set (map toLowerCase SAFE_SYSTEM_CONTRACTS), honorSystemContracts = True\<rparr>"
  by (simp_all add: new_TransactionFirewall_def emptyAllowlistConfig_def testConfig_def
        new_SpendingLimits_def new_TransactionSimulator_def new_ContractAllowlist_def
        lower_KNOWN_MALICIOUS)

lemma weth_safe: "toLowerCase wethOnBase \<in> set (map toLowerCase SAFE_SYSTEM_CONTRACTS)"
  by (simp add: lower_SAFE_SYSTEM lower_wethOnBase)

lemma weth_unblocked:
  "toLowerCase wethOnBase \<notin> blocklist (fw_allowlist (new_TransactionFirewall testDate c emptyAllowlistConfig))"
  by (simp add: emptyAllowlist_fields lower_wethOnBase)

lemma weth_estimate:
  "se_estimatedSpend (fst (estimateSpend g \<lparr>client = mockClient, sim_chain = base, maxRetries = 2\<rparr>
       (tx\<lparr>tx_to := Some wethOnBase, tx_data := None, tx_gas := None, tx_from := Some mockAddress\<rparr>) []))
     = (case tx_value tx of Some v \<Rightarrow> v | None \<Rightarrow> 0) + 21000000000000"
  by (simp add: estimateSpend_def rpc_getGasPrice_def rpc_estimateGas_def Let_def
        mockClient_responses truthyInt_def truthyStr_def wethOnBase_def mockAddress_def
        split: option.splits)

text \<open>
  Claim C10, as stated, fails where it says that the pipeline's check always allows:
  under the empty allow list of the test suite, the wrapped-ether contract is
  system-safe and not blocked, and a 2 ETH transfer to it is rejected, by the
  per-transaction cap of 1 ETH.
\<close>

theorem system_safe_rejected_by_ledger_counterexample:
  "toLowerCase wethOnBase \<in> set (map toLowerCase SAFE_SYSTEM_CONTRACTS)
   \<and> toLowerCase wethOnBase
        \<notin> blocklist (fw_allowlist (new_TransactionFirewall testDate mockClient emptyAllowlistConfig))
   \<and> \<not> allowed (fst (firewall_check plainFormat plainFormat testDate
        (new_TransactionFirewall testDate mockClient emptyAllowlistConfig)
        (transfer2Eth\<lparr>tx_to := Some wethOnBase\<rparr>) []))"
proof -
  have cls: "allowlist_check (fw_allowlist (new_TransactionFirewall testDate mockClient emptyAllowlistConfig))
        wethOnBase
      = \<lparr>cc_allowed = True, cc_reason = None, contractAddress = wethOnBase, status = SystemSafe\<rparr>"
    using weth_safe by (simp add: allowlist_check_def emptyAllowlist_fields lower_wethOnBase)
  have ne: "wethOnBase \<noteq> []" by (simp add: wethOnBase_def)
  have "\<not> allowed (fst (firewall_check plainFormat plainFormat testDate
        (new_TransactionFirewall testDate mockClient emptyAllowlistConfig)
        (transfer2Eth\<lparr>tx_to := Some wethOnBase\<rparr>) []))"
    using weth_estimate [of plainFormat transfer2Eth]
    by (simp add: firewall_check_def Let_def checkAll_def extractContractAddresses_def cls ne
          emptyAllowlist_fields truthyStr_def mockAddress_nonempty transfer2Eth_def
          limits_check_def ether_def case_prod_beta)
  with weth_safe weth_unblocked show ?thesis by blast
qed

theorem system_safe_destination_allowed_witness:
  "allowlist_check
     (fw_allowlist (new_TransactionFirewall testDate mockClient emptyAllowlistConfig)) wethOnBase
   = \<lparr>cc_allowed = True, cc_reason = None, contractAddress = wethOnBase, status = SystemSafe\<rparr>
   \<and> allowed (fst (firewall_check plainFormat plainFormat testDate
        (new_TransactionFirewall testDate mockClient emptyAllowlistConfig) transferToWeth []))"
proof -
  let ?fw = "new_TransactionFirewall testDate mockClient emptyAllowlistConfig"
  have r: "reachable ?fw" by (rule reachable.constructed)
  have to: "tx_to transferToWeth = Some wethOnBase" by (simp add: transferToWeth_def)
  have est: "se_estimatedSpend (fst (estimateSpend plainFormat (simulator ?fw) transferToWeth []))
               = ether div 10 + 21000000000000"
    using weth_estimate [of plainFormat transferToWeth]
    by (simp add: emptyAllowlist_fields transferToWeth_def)
  have ledger: "sc_allowed (fst (limits_check plainFormat testDate
                   (se_estimatedSpend (fst (estimateSpend plainFormat (simulator ?fw) transferToWeth [])))
                   (limits ?fw)))"
    unfolding est by (simp add: emptyAllowlist_fields limits_check_def Let_def ether_def)
  have nosim: "\<not> requireSimulation ?fw" by (simp add: emptyAllowlist_fields)
  show ?thesis
    using system_safe_destination_allowed
      [OF r weth_safe weth_unblocked, of transferToWeth plainFormat plainFormat testDate "[]"]
      to ledger nosim
    by simp
qed

end
